theory Spec2Isabelle
  imports Complex_Main
begin

section \<open>Values shared by the server and the dashboard\<close>

text \<open>
  JavaScript strings are modelled as \<open>string\<close> (lists of characters with codes below 256,
  the Latin-1 range of JavaScript's code units) and JavaScript numbers as exact reals; the one non-real number the modelled code can produce is
  \<open>NaN\<close> (from \<open>0 / 0\<close>), which is kept as a value of its own. A thrown
  \<open>TypeError\<close> (reading a property of \<open>undefined\<close>) is the left injection of a sum.
\<close>

datatype js_error = TypeError

datatype number = Fin real | NaN

datatype js_value = JNum number | JStr string

record upcoming_game =
  opponent :: string
  moneyline :: real

text \<open>
  The fields of a team that the dashboard reads. The server's TeamView extends this record
  with the display fields. \<open>upcomingGame = None\<close> is an object without that field.
\<close>

record team =
  teamId :: string
  name :: string
  upcomingGame :: "upcoming_game option"

section \<open>The win-probability calculator (SportsAnalyticWeb.jsx)\<close>

definition convertAmericanToProbability :: "real \<Rightarrow> real" where
  "convertAmericanToProbability odds =
     (if odds > 0 then 100 / (odds + 100) else (- odds) / (- odds + 100))"

text \<open>
  \<open>(prob / totalProb) * 100\<close>. Both raw probabilities are non-negative, so a zero total
  means \<open>0 / 0\<close>, which JavaScript evaluates to \<open>NaN\<close>.
\<close>

definition normalizedProb :: "real \<Rightarrow> real \<Rightarrow> number" where
  "normalizedProb prob totalProb =
     (if totalProb = 0 then NaN else Fin ((prob / totalProb) * 100))"

text \<open>\<open>a > b\<close> on numbers: any comparison with \<open>NaN\<close> is false.\<close>

fun number_gt :: "number \<Rightarrow> number \<Rightarrow> bool" where
  "number_gt (Fin a) (Fin b) = (a > b)"
| "number_gt _ _ = False"

fun showNat :: "nat \<Rightarrow> string" where
  "showNat n =
     (if n < 10 then [''0123456789'' ! n]
      else showNat (n div 10) @ [''0123456789'' ! (n mod 10)])"

declare showNat.simps [simp del]

definition showInt :: "int \<Rightarrow> string" where
  "showInt i = (if i < 0 then ''-'' @ showNat (nat (- i)) else showNat (nat i))"

text \<open>
  The template substitution \<open>${Math.round(x)}\<close>: \<open>Math.round\<close> is
  \<open>\<lfloor>x + 1/2\<rfloor>\<close>, printed in decimal; \<open>Math.round(NaN)\<close> prints as \<open>NaN\<close>.
\<close>

fun roundedToString :: "number \<Rightarrow> string" where
  "roundedToString (Fin x) = showInt (round x)"
| "roundedToString NaN = ''NaN''"

text \<open>
  The returned object literal \<open>{[teamA.id]: .., [teamB.id]: .., insight: ..}\<close> is a map
  from property names to values, filled in source order: a later property with the same
  name replaces the earlier one.

  The arguments are \<open>None\<close> for \<open>undefined\<close>/\<open>null\<close>. The guard uses \<open>teamA?.upcomingGame\<close>,
  but the object it returns reads \<open>teamA.id\<close> and \<open>teamB.id\<close>, which throws on an absent team.
  \<open>oddsNotAvailable\<close> is the early return taken when the guard holds.
\<close>

definition oddsNotAvailable ::
  "'a team_scheme option \<Rightarrow> 'b team_scheme option \<Rightarrow> js_error + (string \<rightharpoonup> js_value)" where
  "oddsNotAvailable teamA teamB =
     (case teamA of
        None \<Rightarrow> Inl TypeError
      | Some a \<Rightarrow>
          (case teamB of
             None \<Rightarrow> Inl TypeError
           | Some b \<Rightarrow>
               Inr (Map.empty(teamId a \<mapsto> JNum (Fin 50),
                              teamId b \<mapsto> JNum (Fin 50),
                              ''insight'' \<mapsto> JStr ''Odds data not available.''))))"

definition calculateWinProbabilityFromOdds ::
  "'a team_scheme option \<Rightarrow> 'b team_scheme option \<Rightarrow> js_error + (string \<rightharpoonup> js_value)" where
  "calculateWinProbabilityFromOdds teamA teamB =
     (case (Option.bind teamA upcomingGame, Option.bind teamB upcomingGame) of
        (Some gameA, Some gameB) \<Rightarrow>
          (case (teamA, teamB) of
             (Some a, Some b) \<Rightarrow>
               (let probA = convertAmericanToProbability (moneyline gameA);
                    probB = convertAmericanToProbability (moneyline gameB);
                    totalProb = probA + probB;
                    normalizedProbA = normalizedProb probA totalProb;
                    normalizedProbB = normalizedProb probB totalProb;
                    insight =
                      ''The betting market implies a ''
                      @ roundedToString
                          (if number_gt normalizedProbA normalizedProbB
                           then normalizedProbA else normalizedProbB)
                      @ ''% chance for the favorite, the ''
                      @ (if number_gt normalizedProbA normalizedProbB then name a else name b)
                      @ '', to win.''
                in Inr (Map.empty(teamId a \<mapsto> JNum normalizedProbA,
                                  teamId b \<mapsto> JNum normalizedProbB,
                                  ''insight'' \<mapsto> JStr insight)))
           | _ \<Rightarrow> Inl TypeError)
      | _ \<Rightarrow> oddsNotAvailable teamA teamB)"

text \<open>\<open>result[key]\<close> on what the calculator returned; \<open>None\<close> if it threw or has no such property.\<close>

definition resultAt :: "js_error + (string \<rightharpoonup> js_value) \<Rightarrow> string \<Rightarrow> js_value option" where
  "resultAt r key = (case r of Inl e \<Rightarrow> None | Inr obj \<Rightarrow> obj key)"

section \<open>The view transformer (server.js)\<close>

subsection \<open>Raw games as delivered by the odds provider\<close>

record outcome =
  outcomeName :: string
  outcomePrice :: real

record market =
  key :: string
  outcomes :: "outcome list"

text \<open>\<open>None\<close> is a missing array: the property is absent (\<open>undefined\<close>).\<close>

record bookmaker =
  markets :: "market list option"

record raw_game =
  bookmakers :: "bookmaker list option"

subsection \<open>The TeamView\<close>

record history_point =
  pointName :: string
  pointValue :: real

record quantitative_metrics =
  offensiveRating :: string
  defensiveRating :: string
  netRating :: string
  pace :: string

record qualitative_labels =
  managementStability :: string
  coachingSystem :: string
  playerMorale :: string
  marketSentiment :: string

record team_view = team +
  conference :: string
  price :: real
  change :: real
  changePercent :: real
  marketCap :: string
  volume :: string
  performanceHistory :: "history_point list"
  quantitative :: quantitative_metrics
  qualitative :: qualitative_labels

subsection \<open>Team identifiers\<close>

text \<open>
  \<open>toLowerCase\<close> on one character: the letters A to Z and the capital letters of the
  Latin-1 range (codes C0 to DE without the multiplication sign D7) are mapped to their
  small letters, 32 code points up; every other character is kept.
\<close>

definition toLowerCaseChar :: "char \<Rightarrow> char" where
  "toLowerCaseChar c =
     (case map_of
             (zip (''ABCDEFGHIJKLMNOPQRSTUVWXYZ''
                   @ [CHR 0xC0, CHR 0xC1, CHR 0xC2, CHR 0xC3, CHR 0xC4,
                      CHR 0xC5, CHR 0xC6, CHR 0xC7, CHR 0xC8, CHR 0xC9,
                      CHR 0xCA, CHR 0xCB, CHR 0xCC, CHR 0xCD, CHR 0xCE,
                      CHR 0xCF, CHR 0xD0, CHR 0xD1, CHR 0xD2, CHR 0xD3,
                      CHR 0xD4, CHR 0xD5, CHR 0xD6, CHR 0xD8, CHR 0xD9,
                      CHR 0xDA, CHR 0xDB, CHR 0xDC, CHR 0xDD, CHR 0xDE])
                  (''abcdefghijklmnopqrstuvwxyz''
                   @ [CHR 0xE0, CHR 0xE1, CHR 0xE2, CHR 0xE3, CHR 0xE4,
                      CHR 0xE5, CHR 0xE6, CHR 0xE7, CHR 0xE8, CHR 0xE9,
                      CHR 0xEA, CHR 0xEB, CHR 0xEC, CHR 0xED, CHR 0xEE,
                      CHR 0xEF, CHR 0xF0, CHR 0xF1, CHR 0xF2, CHR 0xF3,
                      CHR 0xF4, CHR 0xF5, CHR 0xF6, CHR 0xF8, CHR 0xF9,
                      CHR 0xFA, CHR 0xFB, CHR 0xFC, CHR 0xFD, CHR 0xFE])) c of
        None \<Rightarrow> c
      | Some d \<Rightarrow> d)"

text \<open>\<open>teamName.toLowerCase().replace(/ /g, '')\<close>\<close>

definition normalizeId :: "string \<Rightarrow> string" where
  "normalizeId teamName = filter (\<lambda>c. c \<noteq> CHR '' '') (map toLowerCaseChar teamName)"

text \<open>
  \<open>teamsData\<close> starts as the literal \<open>{}\<close>, so \<open>teamsData[teamId]\<close> also finds the
  properties inherited from \<open>Object.prototype\<close>, all of which are truthy. Own properties
  are TeamView objects, which are truthy as well.
\<close>

definition objectPrototypeKeys :: "string list" where
  "objectPrototypeKeys =
     [''constructor'', ''__defineGetter__'', ''__defineSetter__'', ''hasOwnProperty'',
      ''__lookupGetter__'', ''__lookupSetter__'', ''isPrototypeOf'',
      ''propertyIsEnumerable'', ''toString'', ''valueOf'', ''__proto__'',
      ''toLocaleString'']"

definition seen :: "(string \<rightharpoonup> 'v) \<Rightarrow> string \<Rightarrow> bool" where
  "seen teamsData k = (teamsData k \<noteq> None \<or> k \<in> set objectPrototypeKeys)"

subsection \<open>processTeam and the transform\<close>

text \<open>
  The mocked analytics call \<open>Math.random()\<close> fourteen times for each TeamView created.
  \<open>rnd i\<close> is the value of the \<open>i\<close>-th call made during one transform, and the state
  carries the number of calls made so far.
\<close>

text \<open>
  \<open>x.toFixed(1)\<close>: the sign, then the decimal digits of the integer \<open>n\<close> nearest to
  \<open>10 * \<bar>x\<bar>\<close> (the larger one at a tie), with the point before the last digit.
\<close>

definition toFixed1 :: "real \<Rightarrow> string" where
  "toFixed1 x =
     (let n = nat \<lfloor>\<bar>x\<bar> * 10 + 1 / 2\<rfloor>
      in (if x < 0 then ''-'' else []) @ showNat (n div 10) @ ''.'' @ showNat (n mod 10))"

record transform_state =
  teamsData :: "string \<rightharpoonup> team_view"
  randomCalls :: nat

definition newTeamView ::
  "(nat \<Rightarrow> real) \<Rightarrow> nat \<Rightarrow> string \<Rightarrow> string \<Rightarrow> string \<Rightarrow> outcome \<Rightarrow> team_view" where
  "newTeamView rnd n tid teamName opposingTeamName mkt =
     \<lparr> teamId = tid,
       name = teamName,
       upcomingGame = Some \<lparr> opponent = opposingTeamName, moneyline = outcomePrice mkt \<rparr>,
       conference = ''N/A'',
       price = outcomePrice mkt,
       change = rnd n * 5 - 2.5,
       changePercent = rnd (n + 1) * 2 - 1,
       marketCap = toFixed1 (rnd (n + 2) * 10 + 15) @ ''B'',
       volume = toFixed1 (rnd (n + 3) * 1 + 0.5) @ ''M'',
       performanceHistory =
         map (\<lambda>i. \<lparr> pointName = ''Day '' @ showNat (i + 1),
                     pointValue = outcomePrice mkt + (rnd (n + 4 + i) * 10 - 5) * real (i + 1) \<rparr>)
             [0..<6],
       quantitative =
         \<lparr> offensiveRating = toFixed1 (110 + rnd (n + 10) * 10),
           defensiveRating = toFixed1 (110 + rnd (n + 11) * 10),
           netRating = toFixed1 (rnd (n + 12) * 10 - 5),
           pace = toFixed1 (98 + rnd (n + 13) * 5) \<rparr>,
       qualitative =
         \<lparr> managementStability = ''Medium'',
           coachingSystem = ''Established'',
           playerMorale = ''Optimistic'',
           marketSentiment = ''Neutral'' \<rparr> \<rparr>"

definition processTeam ::
  "(nat \<Rightarrow> real) \<Rightarrow> string \<Rightarrow> string \<Rightarrow> outcome \<Rightarrow> transform_state \<Rightarrow> transform_state" where
  "processTeam rnd teamName opposingTeamName mkt st =
     (let tid = normalizeId teamName in
      if \<not> seen (teamsData st) tid
      then \<lparr> teamsData =
               (teamsData st)(tid \<mapsto>
                  newTeamView rnd (randomCalls st) tid teamName opposingTeamName mkt),
             randomCalls = randomCalls st + 14 \<rparr>
      else st)"

text \<open>
  The body of the \<open>forEach\<close> callback. \<open>game.bookmakers[0]\<close> throws when the array is
  missing and is \<open>undefined\<close> when it is empty, in which case \<open>?.\<close> ends the whole chain;
  \<open>.markets.find\<close> throws when \<open>markets\<close> is missing. \<open>team1.name\<close> and
  \<open>team2.name\<close> are evaluated before the first call of \<open>processTeam\<close> and throw when the
  market has fewer than two outcomes.
\<close>

definition processGame ::
  "(nat \<Rightarrow> real) \<Rightarrow> raw_game \<Rightarrow> transform_state \<Rightarrow> js_error + transform_state" where
  "processGame rnd game st =
     (case bookmakers game of
        None \<Rightarrow> Inl TypeError
      | Some [] \<Rightarrow> Inr st
      | Some (b # _) \<Rightarrow>
          (case markets b of
             None \<Rightarrow> Inl TypeError
           | Some ms \<Rightarrow>
               (case find (\<lambda>m. key m = ''h2h'') ms of
                  None \<Rightarrow> Inr st
                | Some moneylineMarket \<Rightarrow>
                    (case outcomes moneylineMarket of
                       team1 # team2 # _ \<Rightarrow>
                         Inr (processTeam rnd (outcomeName team2) (outcomeName team1) team2
                               (processTeam rnd (outcomeName team1) (outcomeName team2) team1 st))
                     | _ \<Rightarrow> Inl TypeError))))"

text \<open>\<open>apiData.forEach\<close>: an exception in one game ends the loop and the transform.\<close>

fun processGames ::
  "(nat \<Rightarrow> real) \<Rightarrow> raw_game list \<Rightarrow> transform_state \<Rightarrow> js_error + transform_state" where
  "processGames rnd [] st = Inr st"
| "processGames rnd (game # rest) st =
     (case processGame rnd game st of
        Inl e \<Rightarrow> Inl e
      | Inr st' \<Rightarrow> processGames rnd rest st')"

definition transformDataForFrontend ::
  "(nat \<Rightarrow> real) \<Rightarrow> raw_game list \<Rightarrow> js_error + (string \<rightharpoonup> team_view)" where
  "transformDataForFrontend rnd apiData =
     (case processGames rnd apiData \<lparr> teamsData = Map.empty, randomCalls = 0 \<rparr> of
        Inl e \<Rightarrow> Inl e
      | Inr st \<Rightarrow> Inr (teamsData st))"

section \<open>The response cache (server.js)\<close>

subsection \<open>Cache keys\<close>

text \<open>
  \<open>JSON.stringify\<close> on a string: the quotation mark, the backslash and the control
  characters are escaped, every other character stands for itself.
\<close>

definition hexDigit :: "nat \<Rightarrow> char" where
  "hexDigit n = ''0123456789abcdef'' ! n"

definition quoteChar :: "char \<Rightarrow> string" where
  "quoteChar c =
     (if c = CHR 0x22 then [CHR 0x5C, CHR 0x22]
      else if c = CHR 0x5C then [CHR 0x5C, CHR 0x5C]
      else if c = CHR 0x08 then [CHR 0x5C, CHR ''b'']
      else if c = CHR 0x09 then [CHR 0x5C, CHR ''t'']
      else if c = CHR 0x0A then [CHR 0x5C, CHR ''n'']
      else if c = CHR 0x0C then [CHR 0x5C, CHR ''f'']
      else if c = CHR 0x0D then [CHR 0x5C, CHR ''r'']
      else if (of_char c :: nat) < 32
        then [CHR 0x5C, CHR ''u'', CHR ''0'', CHR ''0'',
              hexDigit ((of_char c :: nat) div 16), hexDigit ((of_char c :: nat) mod 16)]
      else [c])"

definition quoteJSONString :: "string \<Rightarrow> string" where
  "quoteJSONString s = [CHR 0x22] @ concat (map quoteChar s) @ [CHR 0x22]"

fun joinWith :: "string \<Rightarrow> string list \<Rightarrow> string" where
  "joinWith sep [] = []"
| "joinWith sep [x] = x"
| "joinWith sep (x # y # zs) = x @ sep @ joinWith sep (y # zs)"

text \<open>
  The query object \<open>req.query\<close> is given as the list of its properties in the order in
  which JavaScript enumerates them, which for names that are not array indices is the
  order of insertion, that is, the order of the parameters in the URL. The values are
  strings. \<open>JSON.stringify\<close> writes the properties in that order.
\<close>

type_synonym query = "(string \<times> string) list"

definition jsonStringify :: "query \<Rightarrow> string" where
  "jsonStringify params =
     ''{''
     @ joinWith '','' (map (\<lambda>(k, v). quoteJSONString k @ '':'' @ quoteJSONString v) params)
     @ ''}''"

definition getCacheKey :: "string \<Rightarrow> query \<Rightarrow> string" where
  "getCacheKey endpoint params = endpoint @ '':'' @ jsonStringify params"

subsection \<open>Configuration and the cache\<close>

record config =
  apiKey :: "string option"
  sport :: string
  regions :: string
  marketsParam :: string
  oddsFormat :: string
  cacheTtl :: int
  enableCache :: bool

record 'v cache_entry =
  data :: 'v
  timestamp :: int

type_synonym 'v cache = "string \<rightharpoonup> 'v cache_entry"

text \<open>
  The module-level \<open>Map\<close> is passed in and returned; \<open>now\<close> is the value of
  \<open>Date.now()\<close> (milliseconds). The result \<open>None\<close> is \<open>null\<close>.
  \<open>cache.delete(key)\<close> runs whenever the lookup does not return the entry.
\<close>

definition getCachedData :: "config \<Rightarrow> int \<Rightarrow> string \<Rightarrow> 'v cache \<Rightarrow> 'v option \<times> 'v cache" where
  "getCachedData cfg now k cache =
     (if \<not> enableCache cfg then (None, cache)
      else
        (case cache k of
           Some cached \<Rightarrow>
             if now - timestamp cached < cacheTtl cfg * 1000
             then (Some (data cached), cache)
             else (None, cache(k := None))
         | None \<Rightarrow> (None, cache(k := None))))"

definition setCachedData :: "config \<Rightarrow> int \<Rightarrow> string \<Rightarrow> 'v \<Rightarrow> 'v cache \<Rightarrow> 'v cache" where
  "setCachedData cfg now k d cache =
     (if \<not> enableCache cfg then cache
      else cache(k \<mapsto> \<lparr> data = d, timestamp = now \<rparr>))"

section \<open>The request handler for /api/v1/nba-data (server.js)\<close>

datatype body =
    TeamsBody "string \<rightharpoonup> team_view"
  | ErrorBody string string
  | MessageBody string

record response =
  status :: nat
  body :: body

record upstream_request =
  url :: string
  paramApiKey :: string
  paramRegions :: string
  paramMarkets :: string
  paramOddsFormat :: string
  timeout :: nat

text \<open>
  What \<open>await axios.get(..)\<close> does: it resolves with \<open>response.data\<close> (\<open>None\<close> for an
  empty body), or it throws an error with code \<open>ECONNABORTED\<close>, an error that carries
  the provider's response (its status and, if present, the message of its body), or any
  other error.
\<close>

datatype upstream_outcome =
    Resolved "raw_game list option"
  | Aborted
  | Rejected nat "string option"
  | Failed

record handler_result =
  reply :: response
  cacheAfter :: "(string \<rightharpoonup> team_view) cache"
  upstreamRequests :: "upstream_request list"

definition internalServerError :: response where
  "internalServerError =
     \<lparr> status = 500,
       body = ErrorBody ''Internal server error'' ''An unexpected error occurred'' \<rparr>"

text \<open>
  \<open>upstream\<close> is the odds provider; \<open>now1\<close> and \<open>now2\<close> are the clock readings of the
  cache lookup and of the cache store. The cached payload is an object, hence truthy,
  so \<open>if (cachedData)\<close> tests for \<open>null\<close>. \<open>!config.apiKey\<close> holds for a missing and for
  an empty key. The list \<open>upstreamRequests\<close> records the calls of \<open>axios.get\<close>.
\<close>

definition nbaDataHandler ::
  "config \<Rightarrow> (nat \<Rightarrow> real) \<Rightarrow> (upstream_request \<Rightarrow> upstream_outcome)
     \<Rightarrow> int \<Rightarrow> int \<Rightarrow> query \<Rightarrow> (string \<rightharpoonup> team_view) cache \<Rightarrow> handler_result" where
  "nbaDataHandler cfg rnd upstream now1 now2 reqQuery cache =
     (let cacheKey = getCacheKey ''nba-data'' reqQuery;
          (cachedData, cache1) = getCachedData cfg now1 cacheKey cache
      in case cachedData of
           Some d \<Rightarrow>
             \<lparr> reply = \<lparr> status = 200, body = TeamsBody d \<rparr>,
               cacheAfter = cache1, upstreamRequests = [] \<rparr>
         | None \<Rightarrow>
             if (case apiKey cfg of None \<Rightarrow> True | Some k \<Rightarrow> k = [])
             then
               \<lparr> reply =
                   \<lparr> status = 500,
                     body = ErrorBody ''API key not configured''
                              ''Please set ODDS_API_KEY environment variable'' \<rparr>,
                 cacheAfter = cache1, upstreamRequests = [] \<rparr>
             else
               (let req =
                      \<lparr> url = ''https://api.the-odds-api.com/v4/sports/'' @ sport cfg @ ''/odds'',
                        paramApiKey = (case apiKey cfg of None \<Rightarrow> [] | Some k \<Rightarrow> k),
                        paramRegions = regions cfg,
                        paramMarkets = marketsParam cfg,
                        paramOddsFormat = oddsFormat cfg,
                        timeout = 10000 \<rparr>
                in case upstream req of
                     Resolved (Some (game # games)) \<Rightarrow>
                       (case transformDataForFrontend rnd (game # games) of
                          Inr formattedData \<Rightarrow>
                            \<lparr> reply = \<lparr> status = 200, body = TeamsBody formattedData \<rparr>,
                              cacheAfter = setCachedData cfg now2 cacheKey formattedData cache1,
                              upstreamRequests = [req] \<rparr>
                        | Inl e \<Rightarrow>
                            \<lparr> reply = internalServerError,
                              cacheAfter = cache1, upstreamRequests = [req] \<rparr>)
                   | Resolved _ \<Rightarrow>
                       \<lparr> reply = \<lparr> status = 404, body = MessageBody ''No upcoming NBA games found.'' \<rparr>,
                         cacheAfter = cache1, upstreamRequests = [req] \<rparr>
                   | Aborted \<Rightarrow>
                       \<lparr> reply =
                           \<lparr> status = 504,
                             body = ErrorBody ''Request timeout''
                                      ''The odds API is taking too long to respond'' \<rparr>,
                         cacheAfter = cache1, upstreamRequests = [req] \<rparr>
                   | Rejected st msg \<Rightarrow>
                       \<lparr> reply =
                           \<lparr> status = st,
                             body = ErrorBody ''External API error''
                                      (case msg of
                                         Some (c # cs) \<Rightarrow> c # cs
                                       | _ \<Rightarrow> ''Failed to fetch data from The Odds API'') \<rparr>,
                         cacheAfter = cache1, upstreamRequests = [req] \<rparr>
                   | Failed \<Rightarrow>
                       \<lparr> reply = internalServerError,
                         cacheAfter = cache1, upstreamRequests = [req] \<rparr>))"

section \<open>Notions used to state the properties\<close>

text \<open>One property of the serialized query object: \<open>"key":"value"\<close>.\<close>

definition property :: "string \<times> string \<Rightarrow> string" where
  "property p = quoteJSONString (fst p) @ '':'' @ quoteJSONString (snd p)"

text \<open>
  The two outcomes that the transform reads from a game: the first two outcomes of the
  first market keyed \<open>h2h\<close> of the first bookmaker, if the game has them.
\<close>

definition headToHead :: "raw_game \<Rightarrow> (outcome \<times> outcome) option" where
  "headToHead game =
     (case bookmakers game of
        Some (b # _) \<Rightarrow>
          (case markets b of
             Some ms \<Rightarrow>
               (case find (\<lambda>m. key m = ''h2h'') ms of
                  Some m \<Rightarrow>
                    (case outcomes m of team1 # team2 # _ \<Rightarrow> Some (team1, team2) | _ \<Rightarrow> None)
                | None \<Rightarrow> None)
           | None \<Rightarrow> None)
      | _ \<Rightarrow> None)"

text \<open>
  The outcome under which a team identifier is first seen in a batch: games in batch
  order, and within a game the first outcome before the second.
\<close>

fun firstSeenOutcome :: "raw_game list \<Rightarrow> string \<Rightarrow> outcome option" where
  "firstSeenOutcome [] tid = None"
| "firstSeenOutcome (game # rest) tid =
     (case headToHead game of
        Some (team1, team2) \<Rightarrow>
          if normalizeId (outcomeName team1) = tid then Some team1
          else if normalizeId (outcomeName team2) = tid then Some team2
          else firstSeenOutcome rest tid
      | None \<Rightarrow> firstSeenOutcome rest tid)"

definition copiedFrom :: "team_view \<Rightarrow> outcome \<Rightarrow> bool" where
  "copiedFrom tv out \<longleftrightarrow>
     name tv = outcomeName out
     \<and> price tv = outcomePrice out
     \<and> map_option moneyline (upcomingGame tv) = Some (outcomePrice out)"

subsection \<open>Sample inputs\<close>

text \<open>A run in which every call of \<open>Math.random()\<close> returns one half.\<close>

definition sampleRandom :: "nat \<Rightarrow> real" where
  "sampleRandom i = 1 / 2"

text \<open>A well-formed game: one bookmaker quoting a spreads market and a head-to-head market.\<close>

definition h2hGame :: "string \<Rightarrow> real \<Rightarrow> string \<Rightarrow> real \<Rightarrow> raw_game" where
  "h2hGame name1 price1 name2 price2 =
     \<lparr> bookmakers = Some
         [\<lparr> markets = Some
              [\<lparr> key = ''spreads'', outcomes = [] \<rparr>,
               \<lparr> key = ''h2h'',
                 outcomes = [\<lparr> outcomeName = name1, outcomePrice = price1 \<rparr>,
                             \<lparr> outcomeName = name2, outcomePrice = price2 \<rparr>] \<rparr>] \<rparr>] \<rparr>"

definition sampleTeam :: "string \<Rightarrow> string \<Rightarrow> string \<Rightarrow> real \<Rightarrow> team" where
  "sampleTeam tid teamName opposingTeamName odds =
     \<lparr> teamId = tid, name = teamName,
       upcomingGame = Some \<lparr> opponent = opposingTeamName, moneyline = odds \<rparr> \<rparr>"

definition sampleConfig :: config where
  "sampleConfig =
     \<lparr> apiKey = None, sport = ''basketball_nba'', regions = ''us'',
       marketsParam = ''h2h,spreads'', oddsFormat = ''american'',
       cacheTtl = 60, enableCache = True \<rparr>"

definition sampleUpstream :: "upstream_request \<Rightarrow> upstream_outcome" where
  "sampleUpstream req = Resolved (Some [h2hGame ''Team X'' (- 110) ''Team Y'' 100])"

section \<open>Properties of the win-probability calculator\<close>

lemma convert_pos: "x \<noteq> 0 \<Longrightarrow> 0 < convertAmericanToProbability x"
proof (cases "x > 0")
  case True
  then show ?thesis by (simp add: convertAmericanToProbability_def)
next
  case False
  assume "x \<noteq> 0"
  with False have "0 < - x" and "0 < - x + 100" by simp_all
  then have "0 < (- x) / (- x + 100)" by (rule divide_pos_pos)
  with False show ?thesis by (simp add: convertAmericanToProbability_def)
qed

lemma normalized_sum:
  fixes x y :: real
  assumes "x + y \<noteq> 0"
  shows "x / (x + y) * 100 + y / (x + y) * 100 = 100"
proof -
  have "x / (x + y) * 100 + y / (x + y) * 100 = (x + y) / (x + y) * 100"
    by (simp only: add_divide_distrib distrib_right)
  also have "\<dots> = 100" using assms by simp
  finally show ?thesis .
qed

text \<open>The calculator on two team objects that both carry odds.\<close>

lemma calculate_with_odds:
  "upcomingGame a = Some ga \<Longrightarrow> upcomingGame b = Some gb \<Longrightarrow>
   calculateWinProbabilityFromOdds (Some a) (Some b) =
     (let probA = convertAmericanToProbability (moneyline ga);
          probB = convertAmericanToProbability (moneyline gb);
          totalProb = probA + probB;
          normalizedProbA = normalizedProb probA totalProb;
          normalizedProbB = normalizedProb probB totalProb;
          insight =
            ''The betting market implies a ''
            @ roundedToString
                (if number_gt normalizedProbA normalizedProbB
                 then normalizedProbA else normalizedProbB)
            @ ''% chance for the favorite, the ''
            @ (if number_gt normalizedProbA normalizedProbB then name a else name b)
            @ '', to win.''
      in Inr (Map.empty(teamId a \<mapsto> JNum normalizedProbA,
                        teamId b \<mapsto> JNum normalizedProbB,
                        ''insight'' \<mapsto> JStr insight)))"
  by (simp add: calculateWinProbabilityFromOdds_def)

lemmas calculate_defs =
  calculateWinProbabilityFromOdds_def oddsNotAvailable_def resultAt_def normalizedProb_def
  convertAmericanToProbability_def sampleTeam_def Let_def showInt_def showNat.simps round_def

text \<open>
  Claim C1, as stated, fails: the percentages are stored under the team ids in the same
  object as the \<open>insight\<close> text. A team whose id is \<open>insight\<close> finds the text under its
  id, and two teams with one id share a single entry, that of the second team.
\<close>

theorem win_probabilities_key_collision:
  "resultAt (calculateWinProbabilityFromOdds
       (Some (sampleTeam ''insight'' ''Insight'' ''Team Y'' (- 110)))
       (Some (sampleTeam ''teamy'' ''Team Y'' ''Insight'' 100))) ''insight''
     = Some (JStr ''The betting market implies a 51% chance for the favorite, the Insight, to win.'')
   \<and> resultAt (calculateWinProbabilityFromOdds
       (Some (sampleTeam ''teamx'' ''Team X'' ''Team Y'' (- 110)))
       (Some (sampleTeam ''teamx'' ''Team X'' ''Team Z'' 100))) ''teamx''
     = Some (JNum (Fin (2100 / 43)))"
  by (simp add: calculate_defs)

text \<open>
  Claim C1, amended: for two teams with distinct ids, neither of them the string
  \<open>insight\<close>, that both carry upcoming-game odds with nonzero moneylines, the calculator
  returns without throwing an object that holds a percentage under each team's id, and
  the two percentages sum to 100 (in exact arithmetic): each is the team's raw implied
  probability divided by the sum of the two and multiplied by 100.
\<close>

theorem win_probabilities_sum_to_100:
  assumes "upcomingGame a = Some ga" and "upcomingGame b = Some gb"
    and "moneyline ga \<noteq> 0" and "moneyline gb \<noteq> 0"
    and "teamId a \<noteq> teamId b" and "teamId a \<noteq> ''insight''" and "teamId b \<noteq> ''insight''"
  shows "\<exists>pA pB.
           resultAt (calculateWinProbabilityFromOdds (Some a) (Some b)) (teamId a)
             = Some (JNum (Fin pA))
         \<and> resultAt (calculateWinProbabilityFromOdds (Some a) (Some b)) (teamId b)
             = Some (JNum (Fin pB))
         \<and> pA = convertAmericanToProbability (moneyline ga)
                 / (convertAmericanToProbability (moneyline ga)
                    + convertAmericanToProbability (moneyline gb)) * 100
         \<and> pB = convertAmericanToProbability (moneyline gb)
                 / (convertAmericanToProbability (moneyline ga)
                    + convertAmericanToProbability (moneyline gb)) * 100
         \<and> pA + pB = 100"
proof -
  let ?pa = "convertAmericanToProbability (moneyline ga)"
  let ?pb = "convertAmericanToProbability (moneyline gb)"
  have "0 < ?pa + ?pb"
    using convert_pos [OF assms(3)] convert_pos [OF assms(4)] by simp
  then have nz: "?pa + ?pb \<noteq> 0" by simp
  have sum: "?pa / (?pa + ?pb) * 100 + ?pb / (?pa + ?pb) * 100 = 100"
    using nz by (rule normalized_sum)
  have ra: "resultAt (calculateWinProbabilityFromOdds (Some a) (Some b)) (teamId a)
              = Some (JNum (Fin (?pa / (?pa + ?pb) * 100)))"
    using assms(5,6) nz
    by (simp add: calculate_with_odds [OF assms(1,2)] resultAt_def normalizedProb_def Let_def)
  have rb: "resultAt (calculateWinProbabilityFromOdds (Some a) (Some b)) (teamId b)
              = Some (JNum (Fin (?pb / (?pa + ?pb) * 100)))"
    using assms(7) nz
    by (simp add: calculate_with_odds [OF assms(1,2)] resultAt_def normalizedProb_def Let_def)
  from ra rb sum show ?thesis by blast
qed

theorem win_probabilities_sum_to_100_witness:
  "\<exists>pA pB.
      resultAt (calculateWinProbabilityFromOdds
                  (Some (sampleTeam ''teamx'' ''Team X'' ''Team Y'' (- 110)))
                  (Some (sampleTeam ''teamy'' ''Team Y'' ''Team X'' 100))) ''teamx''
        = Some (JNum (Fin pA))
    \<and> resultAt (calculateWinProbabilityFromOdds
                  (Some (sampleTeam ''teamx'' ''Team X'' ''Team Y'' (- 110)))
                  (Some (sampleTeam ''teamy'' ''Team Y'' ''Team X'' 100))) ''teamy''
        = Some (JNum (Fin pB))
    \<and> pA = 2200 / 43 \<and> pB = 2100 / 43 \<and> pA + pB = 100"
  using win_probabilities_sum_to_100
          [of "sampleTeam ''teamx'' ''Team X'' ''Team Y'' (- 110)"
              "\<lparr> opponent = ''Team Y'', moneyline = - 110 \<rparr>"
              "sampleTeam ''teamy'' ''Team Y'' ''Team X'' 100"
              "\<lparr> opponent = ''Team X'', moneyline = 100 \<rparr>"]
  by (simp add: sampleTeam_def convertAmericanToProbability_def)

text \<open>
  Claim C8, as stated, fails for a team whose id is \<open>insight\<close>: the fixed message is
  written last and replaces the 50 stored under that id.
\<close>

theorem odds_not_available_insight_id:
  "resultAt (calculateWinProbabilityFromOdds
       (Some \<lparr> teamId = ''insight'', name = ''Insight'', upcomingGame = None \<rparr>)
       (Some (sampleTeam ''teamy'' ''Team Y'' ''Insight'' 100))) ''insight''
     = Some (JStr ''Odds data not available.'')"
  by (simp add: calculate_defs)

text \<open>
  Claim C8, amended: for every pair of team objects of which at least one has no
  \<open>upcomingGame\<close> field, the calculator does not throw; the object it returns has the
  fixed message \<open>Odds data not available.\<close> as its insight, holds 50 under the id of each
  team whose id is not the string \<open>insight\<close>, and has no other property.
\<close>

theorem odds_not_available_result:
  assumes "upcomingGame a = None \<or> upcomingGame b = None"
  shows "\<exists>obj. calculateWinProbabilityFromOdds (Some a) (Some b) = Inr obj
           \<and> obj ''insight'' = Some (JStr ''Odds data not available.'')
           \<and> (teamId a \<noteq> ''insight'' \<longrightarrow> obj (teamId a) = Some (JNum (Fin 50)))
           \<and> (teamId b \<noteq> ''insight'' \<longrightarrow> obj (teamId b) = Some (JNum (Fin 50)))
           \<and> dom obj = {teamId a, teamId b, ''insight''}"
proof -
  have "calculateWinProbabilityFromOdds (Some a) (Some b) = oddsNotAvailable (Some a) (Some b)"
    using assms by (auto simp add: calculateWinProbabilityFromOdds_def split: option.splits)
  then show ?thesis
    by (auto simp add: oddsNotAvailable_def)
qed

theorem odds_not_available_result_witness:
  "\<exists>obj. calculateWinProbabilityFromOdds
            (Some \<lparr> teamId = ''teamx'', name = ''Team X'', upcomingGame = None \<rparr>)
            (Some (sampleTeam ''teamy'' ''Team Y'' ''Team X'' 100)) = Inr obj
        \<and> obj ''insight'' = Some (JStr ''Odds data not available.'')
        \<and> obj ''teamx'' = Some (JNum (Fin 50))
        \<and> obj ''teamy'' = Some (JNum (Fin 50))
        \<and> dom obj = {''teamx'', ''teamy'', ''insight''}"
  using odds_not_available_result
          [of "\<lparr> teamId = ''teamx'', name = ''Team X'', upcomingGame = None \<rparr>"
              "sampleTeam ''teamy'' ''Team Y'' ''Team X'' 100"]
  by (simp add: sampleTeam_def)

text \<open>
  Claim C9, as stated, fails where the -200 team has no entry of its own in the returned
  object: when its id is \<open>insight\<close> the text is found under its id, and when it is passed
  first and the other team has the same id, the entry holds the other team's 37.5.
\<close>

theorem favorite_without_own_entry:
  "resultAt (calculateWinProbabilityFromOdds
       (Some (sampleTeam ''teamx'' ''Team X'' ''Insight'' 150))
       (Some (sampleTeam ''insight'' ''Insight'' ''Team X'' (- 200)))) ''insight''
     = Some (JStr ''The betting market implies a 63% chance for the favorite, the Insight, to win.'')
   \<and> resultAt (calculateWinProbabilityFromOdds
       (Some (sampleTeam ''teamx'' ''Team X'' ''Team Y'' (- 200)))
       (Some (sampleTeam ''teamx'' ''Team X'' ''Team Z'' 150))) ''teamx''
     = Some (JNum (Fin (75 / 2)))"
  by (simp add: calculate_defs)

text \<open>
  Claim C9, amended: for two teams with moneylines +150 and -200, in either argument
  order, the insight names the -200 team as the favorite with the rounded percentage 63.
  The returned object holds the percentage 62.5, which is greater than 50, under the id
  of the -200 team, provided that this id is not the string \<open>insight\<close> and, when the -200
  team is the first argument, that the other team has a different id.
\<close>

theorem favorite_at_plus150_minus200:
  assumes "upcomingGame a = Some ga" and "upcomingGame b = Some gb"
    and "moneyline ga = 150" and "moneyline gb = - 200"
  shows "resultAt (calculateWinProbabilityFromOdds (Some a) (Some b)) ''insight''
           = Some (JStr (''The betting market implies a 63% chance for the favorite, the ''
                         @ name b @ '', to win.''))
       \<and> resultAt (calculateWinProbabilityFromOdds (Some b) (Some a)) ''insight''
           = Some (JStr (''The betting market implies a 63% chance for the favorite, the ''
                         @ name b @ '', to win.''))
       \<and> (teamId b \<noteq> ''insight'' \<longrightarrow>
            resultAt (calculateWinProbabilityFromOdds (Some a) (Some b)) (teamId b)
              = Some (JNum (Fin (125 / 2))))
       \<and> (teamId b \<noteq> ''insight'' \<and> teamId a \<noteq> teamId b \<longrightarrow>
            resultAt (calculateWinProbabilityFromOdds (Some b) (Some a)) (teamId b)
              = Some (JNum (Fin (125 / 2))))
       \<and> (50 :: real) < 125 / 2"
  using assms(3,4)
  by (simp add: calculate_with_odds [OF assms(1,2)] calculate_with_odds [OF assms(2,1)]
        resultAt_def normalizedProb_def convertAmericanToProbability_def Let_def
        showInt_def showNat.simps round_def)

theorem favorite_at_plus150_minus200_witness:
  "resultAt (calculateWinProbabilityFromOdds
               (Some (sampleTeam ''teamx'' ''Team X'' ''Team Y'' 150))
               (Some (sampleTeam ''teamy'' ''Team Y'' ''Team X'' (- 200)))) ''insight''
     = Some (JStr ''The betting market implies a 63% chance for the favorite, the Team Y, to win.'')
   \<and> resultAt (calculateWinProbabilityFromOdds
               (Some (sampleTeam ''teamy'' ''Team Y'' ''Team X'' (- 200)))
               (Some (sampleTeam ''teamx'' ''Team X'' ''Team Y'' 150))) ''insight''
     = Some (JStr ''The betting market implies a 63% chance for the favorite, the Team Y, to win.'')
   \<and> resultAt (calculateWinProbabilityFromOdds
               (Some (sampleTeam ''teamx'' ''Team X'' ''Team Y'' 150))
               (Some (sampleTeam ''teamy'' ''Team Y'' ''Team X'' (- 200)))) ''teamy''
     = Some (JNum (Fin (125 / 2)))
   \<and> resultAt (calculateWinProbabilityFromOdds
               (Some (sampleTeam ''teamy'' ''Team Y'' ''Team X'' (- 200)))
               (Some (sampleTeam ''teamx'' ''Team X'' ''Team Y'' 150))) ''teamy''
     = Some (JNum (Fin (125 / 2)))"
  using favorite_at_plus150_minus200
          [of "sampleTeam ''teamx'' ''Team X'' ''Team Y'' 150"
              "\<lparr> opponent = ''Team Y'', moneyline = 150 \<rparr>"
              "sampleTeam ''teamy'' ''Team Y'' ''Team X'' (- 200)"
              "\<lparr> opponent = ''Team X'', moneyline = - 200 \<rparr>"]
  by (simp add: sampleTeam_def)

section \<open>Properties of the response cache\<close>

text \<open>
  Claim C3: with caching enabled, a lookup of \<open>k\<close> that follows \<open>set(k, v)\<close> returns \<open>v\<close>
  and keeps the entry while \<open>now - timestamp < ttl\<close> (the configured seconds times 1000);
  otherwise it returns \<open>null\<close> and leaves the cache without an entry for \<open>k\<close>.
\<close>

theorem cache_set_then_get:
  assumes "enableCache cfg"
  shows "(now - t0 < cacheTtl cfg * 1000 \<longrightarrow>
            getCachedData cfg now k (setCachedData cfg t0 k v cache)
              = (Some v, setCachedData cfg t0 k v cache))
       \<and> (\<not> now - t0 < cacheTtl cfg * 1000 \<longrightarrow>
            getCachedData cfg now k (setCachedData cfg t0 k v cache)
              = (None, cache(k := None)))"
  using assms by (simp add: getCachedData_def setCachedData_def)

theorem cache_set_then_get_witness:
  "enableCache sampleConfig
   \<and> getCachedData sampleConfig 60999 ''k'' (setCachedData sampleConfig 1000 ''k'' ''v'' Map.empty)
       = (Some ''v'', setCachedData sampleConfig 1000 ''k'' ''v'' Map.empty)
   \<and> getCachedData sampleConfig 61000 ''k'' (setCachedData sampleConfig 1000 ''k'' ''v'' Map.empty)
       = (None, Map.empty)"
  using cache_set_then_get [of sampleConfig 60999 1000 "''k''" "''v''" Map.empty]
        cache_set_then_get [of sampleConfig 61000 1000 "''k''" "''v''" Map.empty]
  by (simp add: sampleConfig_def)

subsection \<open>The serialization of the query parameters can be read back\<close>

lemma hexDigit_inj:
  assumes "i < 16" and "j < 16" and "hexDigit i = hexDigit j"
  shows "i = j"
proof -
  have d: "distinct ''0123456789abcdef''" by simp
  have l: "length ''0123456789abcdef'' = 16" by simp
  from assms show ?thesis
    unfolding hexDigit_def using nth_eq_iff_index_eq [OF d, of i j] l by simp
qed

lemma quoteChar_nonempty: "quoteChar c \<noteq> []"
  by (simp add: quoteChar_def)

lemma quoteChar_hd: "hd (quoteChar c) \<noteq> CHR 0x22"
  by (simp add: quoteChar_def)

lemma control_char_eq:
  fixes c d :: char
  assumes "(of_char c :: nat) < 32" and "(of_char d :: nat) < 32"
    and "hexDigit ((of_char c :: nat) div 16) = hexDigit ((of_char d :: nat) div 16)"
    and "hexDigit ((of_char c :: nat) mod 16) = hexDigit ((of_char d :: nat) mod 16)"
  shows "c = d"
proof -
  let ?m = "of_char c :: nat" and ?n = "of_char d :: nat"
  have "?m div 16 < 16" and "?n div 16 < 16" using assms(1,2) by simp_all
  from hexDigit_inj [OF this assms(3)] have a: "?m div 16 = ?n div 16" .
  have "?m mod 16 < 16" and "?n mod 16 < 16" by simp_all
  from hexDigit_inj [OF this assms(4)] have b: "?m mod 16 = ?n mod 16" .
  have "?m = 16 * (?m div 16) + ?m mod 16" by simp
  also have "\<dots> = 16 * (?n div 16) + ?n mod 16" using a b by simp
  also have "\<dots> = ?n" by simp
  finally show ?thesis by simp
qed

text \<open>No escape sequence is the beginning of another one.\<close>

lemma quoteChar_prefix_free:
  assumes "quoteChar c @ xs = quoteChar d @ ys"
  shows "c = d \<and> xs = ys"
  using assms control_char_eq [of c d]
  by (auto simp add: quoteChar_def split: if_splits)

lemma quoted_body_unique:
  assumes "concat (map quoteChar s) @ CHR 0x22 # r = concat (map quoteChar t) @ CHR 0x22 # u"
  shows "s = t \<and> r = u"
  using assms
proof (induction s arbitrary: t)
  case Nil
  show ?case
  proof (cases t)
    case Nil
    with Nil.prems show ?thesis by simp
  next
    case (Cons d ds)
    with Nil.prems have "CHR 0x22 # r = quoteChar d @ concat (map quoteChar ds) @ CHR 0x22 # u"
      by simp
    then have "hd (quoteChar d) = CHR 0x22"
      using quoteChar_nonempty [of d] by (cases "quoteChar d") auto
    with quoteChar_hd [of d] show ?thesis by simp
  qed
next
  case (Cons c cs)
  show ?case
  proof (cases t)
    case Nil
    with Cons.prems have "quoteChar c @ concat (map quoteChar cs) @ CHR 0x22 # r = CHR 0x22 # u"
      by simp
    then have "hd (quoteChar c) = CHR 0x22"
      using quoteChar_nonempty [of c] by (cases "quoteChar c") auto
    with quoteChar_hd [of c] show ?thesis by simp
  next
    case t: (Cons d ds)
    with Cons.prems have
      "quoteChar c @ (concat (map quoteChar cs) @ CHR 0x22 # r)
         = quoteChar d @ (concat (map quoteChar ds) @ CHR 0x22 # u)"
      by simp
    from quoteChar_prefix_free [OF this] have cd: "c = d"
      and rest: "concat (map quoteChar cs) @ CHR 0x22 # r = concat (map quoteChar ds) @ CHR 0x22 # u"
      by simp_all
    from Cons.IH [OF rest] cd t show ?thesis by simp
  qed
qed

lemma quoteJSONString_unique:
  assumes "quoteJSONString s @ r = quoteJSONString t @ u"
  shows "s = t \<and> r = u"
  using assms quoted_body_unique [of s r t u]
  by (simp add: quoteJSONString_def)

lemma property_unique:
  assumes "property p @ r = property q @ u"
  shows "p = q \<and> r = u"
proof -
  from assms have
    "quoteJSONString (fst p) @ ('':'' @ quoteJSONString (snd p) @ r)
       = quoteJSONString (fst q) @ ('':'' @ quoteJSONString (snd q) @ u)"
    by (simp add: property_def)
  from quoteJSONString_unique [OF this] have k: "fst p = fst q"
    and "quoteJSONString (snd p) @ r = quoteJSONString (snd q) @ u" by simp_all
  from quoteJSONString_unique [OF this(2)] k show ?thesis
    by (simp add: prod_eq_iff)
qed

lemma property_hd: "\<exists>xs. property p = CHR 0x22 # xs"
  by (simp add: property_def quoteJSONString_def)

lemma joinWith_Cons:
  "joinWith sep (x # xs) = x @ concat (map (\<lambda>y. sep @ y) xs)"
  by (induction xs arbitrary: x) simp_all

lemma later_properties_unique:
  assumes "concat (map (\<lambda>y. '','' @ y) (map property ps)) @ ''}''
         = concat (map (\<lambda>y. '','' @ y) (map property qs)) @ ''}''"
  shows "ps = qs"
  using assms
proof (induction ps arbitrary: qs)
  case Nil
  then show ?case by (cases qs) simp_all
next
  case (Cons p ps)
  show ?case
  proof (cases qs)
    case Nil
    with Cons.prems show ?thesis by simp
  next
    case q: (Cons q qs')
    with Cons.prems have
      "property p @ (concat (map (\<lambda>y. '','' @ y) (map property ps)) @ ''}'')
         = property q @ (concat (map (\<lambda>y. '','' @ y) (map property qs')) @ ''}'')"
      by simp
    from property_unique [OF this] Cons.IH [of qs'] q show ?thesis by simp
  qed
qed

lemma jsonStringify_inj:
  assumes "jsonStringify ps = jsonStringify qs"
  shows "ps = qs"
proof (cases ps)
  case Nil
  show ?thesis
  proof (cases qs)
    case Nil
    with \<open>ps = []\<close> show ?thesis by simp
  next
    case (Cons q qs')
    obtain xs where "property q = CHR 0x22 # xs" using property_hd by blast
    with assms \<open>ps = []\<close> Cons show ?thesis
      by (simp add: jsonStringify_def joinWith_Cons property_def case_prod_beta)
  qed
next
  case p: (Cons p ps')
  show ?thesis
  proof (cases qs)
    case Nil
    obtain xs where "property p = CHR 0x22 # xs" using property_hd by blast
    with assms p Nil show ?thesis
      by (simp add: jsonStringify_def joinWith_Cons property_def case_prod_beta)
  next
    case q: (Cons q qs')
    have m: "\<And>zs. map (\<lambda>(k, v). quoteJSONString k @ '':'' @ quoteJSONString v) zs = map property zs"
      by (simp add: property_def case_prod_beta)
    from assms p q have
      "property p @ (concat (map (\<lambda>y. '','' @ y) (map property ps')) @ ''}'')
         = property q @ (concat (map (\<lambda>y. '','' @ y) (map property qs')) @ ''}'')"
      unfolding jsonStringify_def m by (simp add: joinWith_Cons)
    from property_unique [OF this] later_properties_unique [of ps' qs'] p q show ?thesis by simp
  qed
qed

text \<open>
  Claim C6, as stated, fails: the same two parameters in the two possible orders give two
  different keys.
\<close>

theorem cache_key_depends_on_order:
  "set [(''regions'', ''us''), (''markets'', ''h2h'')]
     = set [(''markets'', ''h2h''), (''regions'', ''us'')]
   \<and> getCacheKey ''nba-data'' [(''regions'', ''us''), (''markets'', ''h2h'')]
       = ''nba-data:{\"regions\":\"us\",\"markets\":\"h2h\"}''
   \<and> getCacheKey ''nba-data'' [(''markets'', ''h2h''), (''regions'', ''us'')]
       = ''nba-data:{\"markets\":\"h2h\",\"regions\":\"us\"}''
   \<and> getCacheKey ''nba-data'' [(''regions'', ''us''), (''markets'', ''h2h'')]
       \<noteq> getCacheKey ''nba-data'' [(''markets'', ''h2h''), (''regions'', ''us'')]"
  by (simp add: getCacheKey_def jsonStringify_def quoteJSONString_def quoteChar_def
        insert_commute)

text \<open>
  Claim C6, amended: for every endpoint name, two query-parameter objects with string
  values get identical keys exactly when they hold the same key-value pairs in the same
  enumeration order; the key is not independent of the order of insertion.
\<close>

theorem cache_key_determines_parameter_order:
  "getCacheKey endpoint ps = getCacheKey endpoint qs \<longleftrightarrow> ps = qs"
  using jsonStringify_inj [of ps qs] by (auto simp add: getCacheKey_def)

section \<open>Properties of the request handler\<close>

text \<open>
  Claim C7: when the API key is not configured (absent or empty) and the cache lookup
  does not return a payload, the handler replies with status 500 and the error
  \<open>API key not configured\<close>, and it issues no request to the odds provider, whatever the
  provider would have answered.
\<close>

theorem missing_api_key_no_upstream_call:
  assumes "apiKey cfg = None \<or> apiKey cfg = Some []"
    and "fst (getCachedData cfg now1 (getCacheKey ''nba-data'' reqQuery) cache) = None"
  shows "reply (nbaDataHandler cfg rnd upstream now1 now2 reqQuery cache)
           = \<lparr> status = 500,
               body = ErrorBody ''API key not configured''
                        ''Please set ODDS_API_KEY environment variable'' \<rparr>
       \<and> upstreamRequests (nbaDataHandler cfg rnd upstream now1 now2 reqQuery cache) = []"
  using assms
  by (auto simp add: nbaDataHandler_def Let_def split: prod.splits option.splits)

theorem missing_api_key_no_upstream_call_witness:
  "apiKey sampleConfig = None
   \<and> fst (getCachedData sampleConfig 1000 (getCacheKey ''nba-data'' []) Map.empty) = None
   \<and> reply (nbaDataHandler sampleConfig sampleRandom sampleUpstream 1000 1001 [] Map.empty)
       = \<lparr> status = 500,
           body = ErrorBody ''API key not configured''
                    ''Please set ODDS_API_KEY environment variable'' \<rparr>
   \<and> upstreamRequests
        (nbaDataHandler sampleConfig sampleRandom sampleUpstream 1000 1001 [] Map.empty) = []"
proof -
  have k: "apiKey sampleConfig = None \<or> apiKey sampleConfig = Some []"
    by (simp add: sampleConfig_def)
  have c: "fst (getCachedData sampleConfig 1000 (getCacheKey ''nba-data'' []) Map.empty) = None"
    by (simp add: getCachedData_def sampleConfig_def)
  from missing_api_key_no_upstream_call [OF k c, of sampleRandom sampleUpstream 1001] c
  show ?thesis by (simp add: sampleConfig_def)
qed

section \<open>Properties of the view transformer\<close>

subsection \<open>An entry, once created, stays as it is\<close>

lemma processTeam_keeps:
  "teamsData st tid = Some tv \<Longrightarrow>
   teamsData (processTeam rnd teamName opposingTeamName mkt st) tid = Some tv"
  by (auto simp add: processTeam_def seen_def Let_def)

lemma processGame_keeps:
  "teamsData st tid = Some tv \<Longrightarrow> processGame rnd game st = Inr st' \<Longrightarrow>
   teamsData st' tid = Some tv"
  by (auto simp add: processGame_def processTeam_keeps split: option.splits list.splits)

lemma processGames_keeps:
  "teamsData st tid = Some tv \<Longrightarrow> processGames rnd games st = Inr st' \<Longrightarrow>
   teamsData st' tid = Some tv"
proof (induction games arbitrary: st)
  case Nil
  then show ?case by simp
next
  case (Cons game rest)
  from Cons.prems(2) obtain st1 where
    g: "processGame rnd game st = Inr st1" and r: "processGames rnd rest st1 = Inr st'"
    by (auto split: sum.splits)
  from processGame_keeps [OF Cons.prems(1) g] have "teamsData st1 tid = Some tv" .
  from Cons.IH [OF this r] show ?case .
qed

lemma processGames_append:
  "processGames rnd (xs @ ys) st =
     (case processGames rnd xs st of Inl e \<Rightarrow> Inl e | Inr st' \<Rightarrow> processGames rnd ys st')"
  by (induction xs arbitrary: st) (auto split: sum.splits)

lemma normalizeId_samples:
  "normalizeId ''LA Team'' = ''lateam''"
  "normalizeId ''LATeam'' = ''lateam''"
  "normalizeId ''Team X'' = ''teamx''"
  "normalizeId ''Team Y'' = ''teamy''"
  "normalizeId ''Team Z'' = ''teamz''"
  by (simp_all add: normalizeId_def toLowerCaseChar_def)

lemmas transform_steps =
  transformDataForFrontend_def processGame_def processTeam_def seen_def
  objectPrototypeKeys_def h2hGame_def Let_def normalizeId_samples

text \<open>
  Claim C2: for a batch of one game whose first bookmaker's head-to-head market (the
  first market keyed \<open>h2h\<close>) has exactly the outcomes (Team X, -110) and (Team Y, +100),
  the transform returns a map with exactly the two entries \<open>teamx\<close> and \<open>teamy\<close>; each
  names the other team as opponent, and their prices and moneylines are -110 and +100.
\<close>

theorem transform_single_game:
  assumes "bookmakers game = Some (b # bs)"
    and "markets b = Some ms"
    and "find (\<lambda>m. key m = ''h2h'') ms = Some m"
    and "outcomes m = [\<lparr> outcomeName = ''Team X'', outcomePrice = - 110 \<rparr>,
                       \<lparr> outcomeName = ''Team Y'', outcomePrice = 100 \<rparr>]"
  shows "\<exists>td x y. transformDataForFrontend rnd [game] = Inr td
           \<and> dom td = {''teamx'', ''teamy''}
           \<and> td ''teamx'' = Some x \<and> td ''teamy'' = Some y
           \<and> teamId x = ''teamx'' \<and> name x = ''Team X'' \<and> price x = - 110
           \<and> upcomingGame x = Some \<lparr> opponent = ''Team Y'', moneyline = - 110 \<rparr>
           \<and> teamId y = ''teamy'' \<and> name y = ''Team Y'' \<and> price y = 100
           \<and> upcomingGame y = Some \<lparr> opponent = ''Team X'', moneyline = 100 \<rparr>"
proof -
  have nx: "normalizeId ''Team X'' = ''teamx''" and ny: "normalizeId ''Team Y'' = ''teamy''"
    by (simp_all add: normalizeId_def toLowerCaseChar_def)
  have px: "''teamx'' \<notin> set objectPrototypeKeys" and py: "''teamy'' \<notin> set objectPrototypeKeys"
    by (simp_all add: objectPrototypeKeys_def)
  show ?thesis
    using assms px py
    by (auto simp add: transformDataForFrontend_def processGame_def processTeam_def seen_def
          nx ny Let_def newTeamView_def)
qed

theorem transform_single_game_witness:
  "\<exists>td x y. transformDataForFrontend sampleRandom [h2hGame ''Team X'' (- 110) ''Team Y'' 100] = Inr td
      \<and> dom td = {''teamx'', ''teamy''}
      \<and> td ''teamx'' = Some x \<and> td ''teamy'' = Some y
      \<and> teamId x = ''teamx'' \<and> name x = ''Team X'' \<and> price x = - 110
      \<and> upcomingGame x = Some \<lparr> opponent = ''Team Y'', moneyline = - 110 \<rparr>
      \<and> teamId y = ''teamy'' \<and> name y = ''Team Y'' \<and> price y = 100
      \<and> upcomingGame y = Some \<lparr> opponent = ''Team X'', moneyline = 100 \<rparr>"
  using transform_single_game
          [of "h2hGame ''Team X'' (- 110) ''Team Y'' 100"
              "\<lparr> markets = Some
                   [\<lparr> key = ''spreads'', outcomes = [] \<rparr>,
                    \<lparr> key = ''h2h'',
                      outcomes = [\<lparr> outcomeName = ''Team X'', outcomePrice = - 110 \<rparr>,
                                  \<lparr> outcomeName = ''Team Y'', outcomePrice = 100 \<rparr>] \<rparr>] \<rparr>"
              "[]"
              "[\<lparr> key = ''spreads'', outcomes = [] \<rparr>,
                \<lparr> key = ''h2h'',
                  outcomes = [\<lparr> outcomeName = ''Team X'', outcomePrice = - 110 \<rparr>,
                              \<lparr> outcomeName = ''Team Y'', outcomePrice = 100 \<rparr>] \<rparr>]"
              "\<lparr> key = ''h2h'',
                 outcomes = [\<lparr> outcomeName = ''Team X'', outcomePrice = - 110 \<rparr>,
                             \<lparr> outcomeName = ''Team Y'', outcomePrice = 100 \<rparr>] \<rparr>"
              sampleRandom]
  by (simp add: h2hGame_def)

text \<open>
  Claim C4: a TeamView, once created for a normalized team id, is neither changed nor
  replaced within the transform pass. Every call of \<open>processTeam\<close> leaves an existing
  entry as it is, whatever team name, opponent and price it is called with; and the
  TeamView that exists for an id after an initial part of the batch is exactly the one
  the finished pass returns for that id, whatever the later games are, also when a
  later game names a different team with the same normalized id.
\<close>

theorem first_seen_team_view_kept:
  "(teamsData st tid = Some tv \<longrightarrow>
      teamsData (processTeam rnd teamName opposingTeamName mkt st) tid = Some tv)
   \<and> (transformDataForFrontend rnd earlier = Inr td1 \<and> td1 tid = Some tv
        \<and> transformDataForFrontend rnd (earlier @ later) = Inr td2
      \<longrightarrow> td2 tid = Some tv)"
proof (intro conjI impI; (elim conjE)?)
  assume "teamsData st tid = Some tv"
  then show "teamsData (processTeam rnd teamName opposingTeamName mkt st) tid = Some tv"
    by (rule processTeam_keeps)
next
  let ?st0 = "\<lparr> teamsData = Map.empty, randomCalls = 0 \<rparr>"
  assume t1: "transformDataForFrontend rnd earlier = Inr td1"
    and e1: "td1 tid = Some tv"
    and t2: "transformDataForFrontend rnd (earlier @ later) = Inr td2"
  from t1 obtain st1 where
    e: "processGames rnd earlier ?st0 = Inr st1" and td1: "td1 = teamsData st1"
    by (auto simp add: transformDataForFrontend_def split: sum.splits)
  from t2 obtain st2 where
    a: "processGames rnd (earlier @ later) ?st0 = Inr st2" and td2: "td2 = teamsData st2"
    by (auto simp add: transformDataForFrontend_def split: sum.splits)
  from a e have l: "processGames rnd later st1 = Inr st2"
    by (simp add: processGames_append)
  from e1 td1 have "teamsData st1 tid = Some tv" by simp
  from processGames_keeps [OF this l] td2 show "td2 tid = Some tv" by simp
qed

text \<open>
  The witness is the collision of \<open>LA Team\<close> and \<open>LATeam\<close>: neither a call of
  \<open>processTeam\<close> for \<open>LATeam\<close> nor a second game that names \<open>LATeam\<close> changes the
  entry \<open>lateam\<close> made for \<open>LA Team\<close>.
\<close>

theorem first_seen_team_view_kept_witness:
  "teamsData
     (processTeam sampleRandom ''LATeam'' ''Team Z''
        \<lparr> outcomeName = ''LATeam'', outcomePrice = 200 \<rparr>
        \<lparr> teamsData =
            [''lateam'' \<mapsto> newTeamView sampleRandom 0 ''lateam'' ''LA Team'' ''Team Y''
                              \<lparr> outcomeName = ''LA Team'', outcomePrice = - 150 \<rparr>],
          randomCalls = 14 \<rparr>) ''lateam''
     = Some (newTeamView sampleRandom 0 ''lateam'' ''LA Team'' ''Team Y''
               \<lparr> outcomeName = ''LA Team'', outcomePrice = - 150 \<rparr>)
   \<and> (\<exists>td1 td2 tv.
      transformDataForFrontend sampleRandom [h2hGame ''LA Team'' (- 150) ''Team Y'' 130] = Inr td1
    \<and> td1 ''lateam'' = Some tv
    \<and> transformDataForFrontend sampleRandom
        ([h2hGame ''LA Team'' (- 150) ''Team Y'' 130] @ [h2hGame ''Team Z'' (- 250) ''LATeam'' 200])
        = Inr td2
    \<and> td2 ''lateam'' = Some tv
    \<and> name tv = ''LA Team'' \<and> price tv = - 150)"
proof -
  let ?g1 = "h2hGame ''LA Team'' (- 150) ''Team Y'' 130"
  let ?g2 = "h2hGame ''Team Z'' (- 250) ''LATeam'' 200"
  let ?tv0 = "newTeamView sampleRandom 0 ''lateam'' ''LA Team'' ''Team Y''
                \<lparr> outcomeName = ''LA Team'', outcomePrice = - 150 \<rparr>"
  let ?st = "\<lparr> teamsData = [''lateam'' \<mapsto> ?tv0], randomCalls = 14 \<rparr>"
  have s: "teamsData ?st ''lateam'' = Some ?tv0" by simp
  have step: "teamsData
     (processTeam sampleRandom ''LATeam'' ''Team Z''
        \<lparr> outcomeName = ''LATeam'', outcomePrice = 200 \<rparr> ?st) ''lateam'' = Some ?tv0"
    using first_seen_team_view_kept
            [where st = ?st and tid = "''lateam''" and tv = ?tv0 and rnd = sampleRandom
               and teamName = "''LATeam''" and opposingTeamName = "''Team Z''"
               and mkt = "\<lparr> outcomeName = ''LATeam'', outcomePrice = 200 \<rparr>"]
          s
    by blast
  have "\<exists>td1 tv. transformDataForFrontend sampleRandom [?g1] = Inr td1
          \<and> td1 ''lateam'' = Some tv \<and> name tv = ''LA Team'' \<and> price tv = - 150"
    by (simp add: transform_steps newTeamView_def)
  then obtain td1 tv where
    t1: "transformDataForFrontend sampleRandom [?g1] = Inr td1"
    and e1: "td1 ''lateam'' = Some tv" and f: "name tv = ''LA Team'' \<and> price tv = - 150"
    by blast
  have "\<exists>td2. transformDataForFrontend sampleRandom ([?g1] @ [?g2]) = Inr td2"
    by (simp add: transform_steps)
  then obtain td2 where t2: "transformDataForFrontend sampleRandom ([?g1] @ [?g2]) = Inr td2"
    by blast
  from first_seen_team_view_kept
         [where rnd = sampleRandom and earlier = "[?g1]" and later = "[?g2]" and tid = "''lateam''"
            and ?td1.0 = td1 and ?td2.0 = td2 and tv = tv]
       t1 e1 t2
  have "td2 ''lateam'' = Some tv" by blast
  with t1 e1 t2 f step show ?thesis by blast
qed

subsection \<open>Games without a head-to-head market, and malformed games\<close>

text \<open>
  A game whose \<open>bookmakers\<close> array is empty, or whose first bookmaker has a \<open>markets\<close>
  array without a head-to-head market, is skipped: the transform of a batch that
  contains it is the transform of the batch without it.
\<close>

lemma transform_skips_game_without_h2h:
  assumes "bookmakers game = Some []
      \<or> (\<exists>b bs ms. bookmakers game = Some (b # bs) \<and> markets b = Some ms
            \<and> find (\<lambda>m. key m = ''h2h'') ms = None)"
  shows "transformDataForFrontend rnd (before @ game # after)
           = transformDataForFrontend rnd (before @ after)"
proof -
  from assms have "\<And>st. processGame rnd game st = Inr st"
    by (auto simp add: processGame_def)
  then show ?thesis
    by (simp add: transformDataForFrontend_def processGames_append split: sum.splits)
qed

text \<open>
  A game without a \<open>bookmakers\<close> array, or whose first bookmaker has no \<open>markets\<close> array,
  makes the transform of every batch that contains it throw.
\<close>

lemma transform_throws_on_missing_array:
  assumes "bookmakers game = None
        \<or> (\<exists>b bs. bookmakers game = Some (b # bs) \<and> markets b = None)"
  shows "transformDataForFrontend rnd (before @ game # after) = Inl TypeError"
proof -
  from assms have "\<And>st. processGame rnd game st = Inl TypeError"
    by (auto simp add: processGame_def)
  moreover have "\<And>e. e = TypeError"
    by (rule js_error.exhaust)
  ultimately show ?thesis
    by (auto simp add: transformDataForFrontend_def processGames_append split: sum.splits)
qed

text \<open>
  Claim C5 requires a malformed game to be skipped like a game without a head-to-head
  market. The code does not do that. On the batch of one game object without a
  \<open>bookmakers\<close> array, on the batch of one game whose only bookmaker has no \<open>markets\<close>
  array, and on either of them followed by a well-formed game, the transform throws a
  \<open>TypeError\<close> for every run of \<open>Math.random()\<close>, where the claim requires the empty map
  for the first two batches and the two entries of the well-formed game for the other two.
\<close>

theorem transform_throws_on_malformed_game:
  "transformDataForFrontend rnd [\<lparr> bookmakers = None \<rparr>] = Inl TypeError
   \<and> transformDataForFrontend rnd [\<lparr> bookmakers = Some [\<lparr> markets = None \<rparr>] \<rparr>] = Inl TypeError
   \<and> transformDataForFrontend rnd
       [\<lparr> bookmakers = None \<rparr>, h2hGame ''Team X'' (- 110) ''Team Y'' 100] = Inl TypeError
   \<and> transformDataForFrontend rnd
       [\<lparr> bookmakers = Some [\<lparr> markets = None \<rparr>] \<rparr>, h2hGame ''Team X'' (- 110) ''Team Y'' 100]
       = Inl TypeError"
  by (simp add: transformDataForFrontend_def processGame_def)

subsection \<open>Where the price of a TeamView comes from\<close>

lemma processGame_cases:
  assumes "processGame rnd game st = Inr st1"
  shows "(headToHead game = None \<and> st1 = st)
       \<or> (\<exists>team1 team2. headToHead game = Some (team1, team2)
            \<and> st1 = processTeam rnd (outcomeName team2) (outcomeName team1) team2
                      (processTeam rnd (outcomeName team1) (outcomeName team2) team1 st))"
  using assms
  by (auto simp add: processGame_def headToHead_def split: option.splits list.splits)

lemma processTeam_new:
  assumes "teamsData st tid = None"
    and "teamsData (processTeam rnd (outcomeName mkt) opp mkt st) tid = Some tv"
  shows "tid \<notin> set objectPrototypeKeys"
  using assms
  by (auto simp add: processTeam_def seen_def Let_def split: if_splits)

lemma processTeam_other:
  "normalizeId teamName \<noteq> tid \<Longrightarrow>
   teamsData (processTeam rnd teamName opp mkt st) tid = teamsData st tid"
  by (simp add: processTeam_def Let_def)

lemma processTeam_creates:
  assumes "teamsData st tid = None" and "tid \<notin> set objectPrototypeKeys"
    and "normalizeId (outcomeName mkt) = tid"
  shows "\<exists>tv. teamsData (processTeam rnd (outcomeName mkt) opp mkt st) tid = Some tv
           \<and> copiedFrom tv mkt"
  using assms
  by (auto simp add: processTeam_def seen_def Let_def newTeamView_def copiedFrom_def)

text \<open>An identifier that names a property of \<open>Object.prototype\<close> never gets an entry.\<close>

lemma processGames_new_key:
  assumes "processGames rnd games st = Inr st'"
    and "teamsData st tid = None" and "teamsData st' tid = Some tv"
  shows "tid \<notin> set objectPrototypeKeys"
  using assms
proof (induction games arbitrary: st)
  case Nil
  then show ?case by simp
next
  case (Cons game rest)
  from Cons.prems(1) obtain st1 where
    g: "processGame rnd game st = Inr st1" and r: "processGames rnd rest st1 = Inr st'"
    by (auto split: sum.splits)
  show ?case
  proof (cases "teamsData st1 tid")
    case None
    from Cons.IH [OF r None Cons.prems(3)] show ?thesis .
  next
    case (Some tv1)
    from processGame_cases [OF g] show ?thesis
    proof
      assume "headToHead game = None \<and> st1 = st"
      with Some Cons.prems(2) show ?thesis by simp
    next
      assume "\<exists>team1 team2. headToHead game = Some (team1, team2)
            \<and> st1 = processTeam rnd (outcomeName team2) (outcomeName team1) team2
                      (processTeam rnd (outcomeName team1) (outcomeName team2) team1 st)"
      then obtain team1 team2 where
        st1: "st1 = processTeam rnd (outcomeName team2) (outcomeName team1) team2
                      (processTeam rnd (outcomeName team1) (outcomeName team2) team1 st)"
        by blast
      let ?mid = "processTeam rnd (outcomeName team1) (outcomeName team2) team1 st"
      show ?thesis
      proof (cases "teamsData ?mid tid")
        case None
        with Some st1 processTeam_new [of ?mid tid rnd team2 "outcomeName team1" tv1]
        show ?thesis by simp
      next
        case (Some tvm)
        with Cons.prems(2) processTeam_new [of st tid rnd team1 "outcomeName team2" tvm]
        show ?thesis by simp
      qed
    qed
  qed
qed

lemma processGames_first_seen:
  assumes "processGames rnd games st = Inr st'"
    and "teamsData st tid = None" and "teamsData st' tid = Some tv"
    and "tid \<notin> set objectPrototypeKeys"
  shows "\<exists>out. firstSeenOutcome games tid = Some out \<and> copiedFrom tv out"
  using assms(1,2,3)
proof (induction games arbitrary: st)
  case Nil
  then show ?case by simp
next
  case (Cons game rest)
  from Cons.prems(1) obtain st1 where
    g: "processGame rnd game st = Inr st1" and r: "processGames rnd rest st1 = Inr st'"
    by (auto split: sum.splits)
  from processGame_cases [OF g] show ?case
  proof
    assume h: "headToHead game = None \<and> st1 = st"
    with Cons.IH [of st] r Cons.prems(2,3) show ?thesis by simp
  next
    assume "\<exists>team1 team2. headToHead game = Some (team1, team2)
          \<and> st1 = processTeam rnd (outcomeName team2) (outcomeName team1) team2
                    (processTeam rnd (outcomeName team1) (outcomeName team2) team1 st)"
    then obtain team1 team2 where
      h: "headToHead game = Some (team1, team2)" and
      st1: "st1 = processTeam rnd (outcomeName team2) (outcomeName team1) team2
                    (processTeam rnd (outcomeName team1) (outcomeName team2) team1 st)"
      by blast
    let ?mid = "processTeam rnd (outcomeName team1) (outcomeName team2) team1 st"
    show ?thesis
    proof (cases "normalizeId (outcomeName team1) = tid")
      case True
      from processTeam_creates [OF Cons.prems(2) assms(4) True] obtain tv1 where
        m: "teamsData ?mid tid = Some tv1" and c: "copiedFrom tv1 team1"
        by blast
      from processTeam_keeps [OF m] st1 have "teamsData st1 tid = Some tv1" by simp
      from processGames_keeps [OF this r] Cons.prems(3) have "tv = tv1" by simp
      with c h True show ?thesis by simp
    next
      case False
      then have m: "teamsData ?mid tid = None"
        using Cons.prems(2) by (simp add: processTeam_other)
      show ?thesis
      proof (cases "normalizeId (outcomeName team2) = tid")
        case True
        from processTeam_creates [OF m assms(4) True] st1 obtain tv2 where
          s: "teamsData st1 tid = Some tv2" and c: "copiedFrom tv2 team2"
          by blast
        from processGames_keeps [OF s r] Cons.prems(3) have "tv = tv2" by simp
        with c h True False show ?thesis by simp
      next
        case no2: False
        with m st1 have "teamsData st1 tid = None" by (simp add: processTeam_other)
        from Cons.IH [OF r this Cons.prems(3)] h False no2 show ?thesis by simp
      qed
    qed
  qed
qed

text \<open>
  Claim C10: every TeamView in a map returned by the transform has a price equal to the
  moneyline of its \<open>upcomingGame\<close>, and both are the price of the outcome under which the
  team's id is first seen in the batch (which also gives the TeamView its name).
\<close>

theorem price_is_first_seen_moneyline:
  assumes "transformDataForFrontend rnd apiData = Inr td" and "td tid = Some tv"
  shows "\<exists>out g. firstSeenOutcome apiData tid = Some out
           \<and> upcomingGame tv = Some g
           \<and> price tv = outcomePrice out \<and> moneyline g = outcomePrice out
           \<and> price tv = moneyline g \<and> name tv = outcomeName out"
proof -
  let ?st0 = "\<lparr> teamsData = Map.empty, randomCalls = 0 \<rparr>"
  from assms(1) obtain st where
    p: "processGames rnd apiData ?st0 = Inr st" and td: "td = teamsData st"
    by (auto simp add: transformDataForFrontend_def split: sum.splits)
  have e: "teamsData ?st0 tid = None" by simp
  from assms(2) td have s: "teamsData st tid = Some tv" by simp
  from processGames_new_key [OF p e s] have "tid \<notin> set objectPrototypeKeys" .
  from processGames_first_seen [OF p e s this] obtain out where
    "firstSeenOutcome apiData tid = Some out" and "copiedFrom tv out" by blast
  then show ?thesis by (auto simp add: copiedFrom_def)
qed

theorem price_is_first_seen_moneyline_witness:
  "\<exists>td tv.
      transformDataForFrontend sampleRandom
        [h2hGame ''LA Team'' (- 150) ''Team Y'' 130, h2hGame ''Team Z'' (- 250) ''LATeam'' 200]
        = Inr td
    \<and> td ''lateam'' = Some tv
    \<and> firstSeenOutcome
        [h2hGame ''LA Team'' (- 150) ''Team Y'' 130, h2hGame ''Team Z'' (- 250) ''LATeam'' 200]
        ''lateam'' = Some \<lparr> outcomeName = ''LA Team'', outcomePrice = - 150 \<rparr>
    \<and> price tv = - 150
    \<and> map_option moneyline (upcomingGame tv) = Some (- 150)"
proof -
  let ?games =
    "[h2hGame ''LA Team'' (- 150) ''Team Y'' 130, h2hGame ''Team Z'' (- 250) ''LATeam'' 200]"
  have "\<exists>td tv. transformDataForFrontend sampleRandom ?games = Inr td \<and> td ''lateam'' = Some tv"
    by (simp add: transform_steps)
  then obtain td tv where
    t: "transformDataForFrontend sampleRandom ?games = Inr td" and e: "td ''lateam'' = Some tv"
    by blast
  have f: "firstSeenOutcome ?games ''lateam''
             = Some \<lparr> outcomeName = ''LA Team'', outcomePrice = - 150 \<rparr>"
    by (simp add: headToHead_def h2hGame_def normalizeId_samples)
  from price_is_first_seen_moneyline [OF t e] f
  have "price tv = - 150 \<and> map_option moneyline (upcomingGame tv) = Some (- 150)"
    by auto
  with t e f show ?thesis by blast
qed

end
